theory Spec2Isabelle
  imports Complex_Main "HOL-Library.Log_Nat" "HOL-Library.Word"
begin

section \<open>MBVectorTileDecoder: style parameters, style installation and decoding\<close>

text \<open>
  A shallow embedding of \<^verbatim>\<open>all/native/vectortiles/MBVectorTileDecoder.cpp\<close>.
  Every member function is a HOL function that takes the decoder object's fields as a
  record and returns three things: the returned value or the exception that leaves the
  function, the fields afterwards, and the events the call emitted (log lines and
  \<^verbatim>\<open>notifyDecoderChanged()\<close> calls), in order.

  The classes of other libraries that the file calls (the style parsers, the tile
  parser, \<^verbatim>\<open>boost::lexical_cast\<close>) are not part of the file. The parsers are
  parameters of the model, collected in a record of functions; a call that may throw
  returns \<open>Inl\<close> of the message \<^verbatim>\<open>what()\<close>. The IEEE types \<^verbatim>\<open>double\<close> and
  \<^verbatim>\<open>float\<close> are the type parameters \<open>'d\<close> and \<open>'f\<close>.
\<close>

subsection \<open>Exceptions and events\<close>

text \<open>
  The exception classes thrown in the file. \<^verbatim>\<open>ParseException\<close> is constructed with one
  argument at one place and with two at the others: the second argument is an option.
  \<open>bad_lexical_cast\<close> is what \<^verbatim>\<open>boost::lexical_cast\<close> throws; \<open>std_exception\<close> is
  any exception of a called library, with its message.
\<close>

datatype exception =
    NullArgumentException string
  | InvalidArgumentException string
  | GenericException string
  | ParseException string "string option"
  | bad_lexical_cast
  | std_exception string

datatype log_level = Info | Warn | Error

datatype event = Log log_level string | DecoderChanged

subsection \<open>Values and \<^verbatim>\<open>boost::lexical_cast\<close>\<close>

text \<open>
  \<^verbatim>\<open>mvt::Value\<close> is \<^verbatim>\<open>boost::variant<boost::blank, bool, long long, double, std::string>\<close>.
\<close>

datatype 'd Value =
    Blank
  | BoolValue bool
  | LongValue "64 word"
  | DoubleValue 'd
  | StringValue string

text \<open>The alternative a variant holds, which \<^verbatim>\<open>boost::get<T>(&val)\<close> tests.\<close>

datatype Kind = KBlank | KBool | KLong | KDouble | KString

fun which :: "'d Value \<Rightarrow> Kind" where
  "which Blank = KBlank"
| "which (BoolValue b) = KBool"
| "which (LongValue n) = KLong"
| "which (DoubleValue d) = KDouble"
| "which (StringValue s) = KString"

text \<open>
  \<^verbatim>\<open>boost::lexical_cast<std::string>(bool)\<close> writes the digit \<^verbatim>\<open>1\<close> or \<^verbatim>\<open>0\<close>; the
  stream is not in \<^verbatim>\<open>boolalpha\<close> mode.
\<close>

definition lexical_cast_string_of_bool :: "bool \<Rightarrow> string" where
  "lexical_cast_string_of_bool b = (if b then ''1'' else ''0'')"

text \<open>
  \<^verbatim>\<open>boost::lexical_cast<bool>(std::string)\<close>: the last character is \<^verbatim>\<open>1\<close> or \<^verbatim>\<open>0\<close>,
  before it an optional sign (\<^verbatim>\<open>+\<close>, or \<^verbatim>\<open>-\<close> in front of a zero) and zeros only;
  anything else throws \<^verbatim>\<open>bad_lexical_cast\<close>.
\<close>

definition lexical_cast_bool :: "string \<Rightarrow> exception + bool" where
  "lexical_cast_bool s =
     (if s = [] then Inl bad_lexical_cast
      else
        let output = (last s = CHR ''1'') in
        if \<not> output \<and> last s \<noteq> CHR ''0'' then Inl bad_lexical_cast
        else
          let front = butlast s in
          if front = [] then Inr output
          else
            let zeros = (if hd front = CHR ''+'' \<or> (hd front = CHR ''-'' \<and> \<not> output)
                         then tl front else front) in
            if list_all (\<lambda>c. c = CHR ''0'') zeros then Inr output
            else Inl bad_lexical_cast)"

text \<open>Decimal digits.\<close>

definition digit_char :: "nat \<Rightarrow> char" where
  "digit_char n = char_of (48 + n)"

definition is_digit :: "char \<Rightarrow> bool" where
  "is_digit c = (48 \<le> (of_char c :: nat) \<and> (of_char c :: nat) \<le> 57)"

definition digit_value :: "char \<Rightarrow> nat" where
  "digit_value c = of_char c - 48"

fun decimal :: "nat \<Rightarrow> string" where
  "decimal n = (if n < 10 then [digit_char n] else decimal (n div 10) @ [digit_char (n mod 10)])"

declare decimal.simps [simp del]

definition decimal_value :: "string \<Rightarrow> nat" where
  "decimal_value s = foldl (\<lambda>acc c. 10 * acc + digit_value c) 0 s"

text \<open>
  \<^verbatim>\<open>boost::lexical_cast<std::string>(long long)\<close>: the decimal digits of the magnitude,
  after a minus sign when the value is negative.
\<close>

definition lexical_cast_string_of_long_long :: "64 word \<Rightarrow> string" where
  "lexical_cast_string_of_long_long n =
     (if sint n < 0 then CHR ''-'' # decimal (nat (- sint n)) else decimal (nat (sint n)))"

text \<open>
  \<^verbatim>\<open>boost::lexical_cast<long long>(std::string)\<close>: an optional sign and then decimal
  digits, at least one, to the end of the string; a magnitude that does not fit in
  \<^verbatim>\<open>long long\<close> throws \<^verbatim>\<open>bad_lexical_cast\<close>, as every other string does.
\<close>

definition lexical_cast_long_long :: "string \<Rightarrow> exception + 64 word" where
  "lexical_cast_long_long s =
     (let has_minus = (s \<noteq> [] \<and> hd s = CHR ''-'');
          has_sign = (s \<noteq> [] \<and> (hd s = CHR ''-'' \<or> hd s = CHR ''+''));
          digits = (if has_sign then tl s else s) in
      if digits = [] \<or> \<not> list_all is_digit digits then Inl bad_lexical_cast
      else
        let magnitude = decimal_value digits in
        if has_minus then
          (if magnitude \<le> 2 ^ 63 then Inr (word_of_int (- int magnitude)) else Inl bad_lexical_cast)
        else
          (if magnitude < 2 ^ 63 then Inr (word_of_nat magnitude) else Inl bad_lexical_cast))"

text \<open>
  The two conversions of \<^verbatim>\<open>double\<close>, \<^verbatim>\<open>boost::lexical_cast<std::string>(double)\<close> and
  \<^verbatim>\<open>boost::lexical_cast<double>(std::string)\<close>, are parameters: the second returns
  \<open>None\<close> where the library throws \<^verbatim>\<open>bad_lexical_cast\<close>.
\<close>

record 'd lexical_cast_double =
  string_of_double :: "'d \<Rightarrow> string"
  double_of_string :: "string \<Rightarrow> 'd option"

subsection \<open>The style model\<close>

text \<open>
  \<^verbatim>\<open>mvt::NutiParameter\<close> has a default value and an enum map from labels to values;
  a \<^verbatim>\<open>std::map\<close> is the list of its entries in iteration order, \<open>map_of\<close> is its
  \<^verbatim>\<open>find\<close>. \<^verbatim>\<open>mvt::Map\<close> is read here for its parameter declarations and three of
  its settings.
\<close>

record 'd NutiParameter =
  defaultValue :: "'d Value"
  enumMap :: "(string \<times> 'd Value) list"

record MapSettings =
  backgroundColor :: "32 word"
  backgroundImage :: string
  fontDirectory :: string

record 'd Map =
  nutiParameterMap :: "(string \<times> 'd NutiParameter) list"
  mapSettings :: MapSettings

text \<open>The keys of a \<^verbatim>\<open>std::map\<close> are distinct.\<close>

definition wf_Map :: "'d Map \<Rightarrow> bool" where
  "wf_Map m = distinct (map fst (nutiParameterMap m))"

type_synonym bytes = "8 word list"

record AssetPackage =
  getAssetNames :: "string list"
  loadAsset :: "string \<Rightarrow> bytes option"

record CompiledStyleSet =
  cs_styleAssetName :: string
  cs_assetPackage :: "AssetPackage option"

record CartoCSSStyleSet =
  css_cartoCSS :: string
  css_assetPackage :: "AssetPackage option"

text \<open>
  \<^verbatim>\<open>boost::variant<std::shared_ptr<CompiledStyleSet>, std::shared_ptr<CartoCSSStyleSet> >\<close>
\<close>

datatype StyleSet = Compiled CompiledStyleSet | CartoCSS CartoCSSStyleSet

subsection \<open>The symbolizer context and the decoder object\<close>

record 'd Settings =
  tileSize :: int
  nutiParameterValueMap :: "string \<rightharpoonup> 'd Value"

record BitmapManager =
  bm_filePath :: string
  bm_assetPackage :: "AssetPackage option"

record FontManager =
  fm_width :: int
  fm_height :: int
  fm_fonts :: "bytes list"

record 'd SymbolizerContext =
  getBitmapManager :: BitmapManager
  getFontManager :: FontManager
  getStrokeMap :: int
  getGlyphMap :: "int \<times> int"
  getSettings :: "'d Settings"

definition DEFAULT_TILE_SIZE :: int where "DEFAULT_TILE_SIZE = 256"
definition STROKEMAP_SIZE :: int where "STROKEMAP_SIZE = 512"
definition GLYPHMAP_SIZE :: int where "GLYPHMAP_SIZE = 2048"

text \<open>
  The fields of \<^verbatim>\<open>MBVectorTileDecoder\<close>. A payload (\<^verbatim>\<open>std::shared_ptr<BinaryData>\<close>) is
  its address and its bytes; the cache compares addresses. \<open>'fd\<close> is the class
  \<^verbatim>\<open>mvt::MBVTFeatureDecoder\<close>.
\<close>

record BinaryData =
  address :: nat
  dataPtr :: bytes

record ('d, 'f, 'fd) MBVectorTileDecoder =
  buffer :: 'f
  featureIdOverride :: bool
  cartoCSSLayerNamesIgnored :: bool
  layerNameOverride :: string
  map' :: "'d Map"
  parameterValueMap :: "string \<rightharpoonup> 'd Value"
  backgroundPattern :: "bytes option"
  symbolizerContext :: "'d SymbolizerContext"
  styleSet :: StyleSet
  cachedFeatureDecoder :: "(nat \<times> 'fd) option"

subsection \<open>getStyleParameter and setStyleParameter\<close>

text \<open>The loop over the enum map: the first label whose value equals the current one.\<close>

fun enum_label :: "(string \<times> 'd Value) list \<Rightarrow> 'd Value \<Rightarrow> string" where
  "enum_label [] value = []"
| "enum_label ((label, v) # rest) value = (if v = value then label else enum_label rest value)"

definition getStyleParameter ::
  "'d lexical_cast_double \<Rightarrow> ('d, 'f, 'fd) MBVectorTileDecoder \<Rightarrow> string \<Rightarrow> exception + string" where
  "getStyleParameter lc this param =
     (case map_of (nutiParameterMap (map' this)) param of
        None \<Rightarrow> Inl (InvalidArgumentException ''Could not find parameter'')
      | Some nutiParam \<Rightarrow>
          let value = (case parameterValueMap this param of
                         Some v \<Rightarrow> v
                       | None \<Rightarrow> defaultValue nutiParam) in
          if enumMap nutiParam \<noteq> [] then Inr (enum_label (enumMap nutiParam) value)
          else
            (case value of
               BoolValue val \<Rightarrow> Inr (lexical_cast_string_of_bool val)
             | LongValue val \<Rightarrow> Inr (lexical_cast_string_of_long_long val)
             | DoubleValue val \<Rightarrow> Inr (string_of_double lc val)
             | StringValue val \<Rightarrow> Inr val
             | Blank \<Rightarrow> Inr []))"

text \<open>
  The value a string is parsed to, by the kind of the parameter's default value
  (lines 264 to 284); \<open>Inl\<close> is the exception of the cast.
\<close>

definition parse_value ::
  "'d lexical_cast_double \<Rightarrow> 'd Value \<Rightarrow> string \<Rightarrow> exception + 'd Value" where
  "parse_value lc val value =
     (case val of
        BoolValue b \<Rightarrow>
          (if value = ''true'' then Inr (BoolValue True)
           else if value = ''false'' then Inr (BoolValue False)
           else (case lexical_cast_bool value of
                   Inl e \<Rightarrow> Inl e
                 | Inr b' \<Rightarrow> Inr (BoolValue b')))
      | LongValue n \<Rightarrow>
          (case lexical_cast_long_long value of
             Inl e \<Rightarrow> Inl e
           | Inr n' \<Rightarrow> Inr (LongValue n'))
      | DoubleValue d \<Rightarrow>
          (case double_of_string lc value of
             None \<Rightarrow> Inl bad_lexical_cast
           | Some d' \<Rightarrow> Inr (DoubleValue d'))
      | StringValue s \<Rightarrow> Inr (StringValue value)
      | Blank \<Rightarrow> Inr Blank)"

text \<open>
  Lines 287 to 291: the new symbolizer context, with the managers of the old one and the
  settings made from the parameter values, and the notification after the lock is released.
\<close>

definition store_parameter ::
  "('d, 'f, 'fd) MBVectorTileDecoder \<Rightarrow> string \<Rightarrow> 'd Value \<Rightarrow> ('d, 'f, 'fd) MBVectorTileDecoder" where
  "store_parameter this param val =
     (let values = (parameterValueMap this)(param \<mapsto> val) in
      this\<lparr>parameterValueMap := values,
           symbolizerContext := (symbolizerContext this)
             \<lparr>getSettings := \<lparr>tileSize = DEFAULT_TILE_SIZE, nutiParameterValueMap = values\<rparr>\<rparr>\<rparr>)"

definition setStyleParameter ::
  "'d lexical_cast_double \<Rightarrow> ('d, 'f, 'fd) MBVectorTileDecoder \<Rightarrow> string \<Rightarrow> string \<Rightarrow>
     (exception + bool) \<times> ('d, 'f, 'fd) MBVectorTileDecoder \<times> event list" where
  "setStyleParameter lc this param value =
     (case map_of (nutiParameterMap (map' this)) param of
        None \<Rightarrow>
          (Inr False, this,
           [Log Info (''MBVectorTileDecoder::setStyleParameter: Could not find parameter: '' @ param)])
      | Some nutiParam \<Rightarrow>
          if enumMap nutiParam \<noteq> [] then
            (case map_of (enumMap nutiParam) value of
               None \<Rightarrow>
                 (Inr False, this,
                  [Log Info (''MBVectorTileDecoder::setStyleParameter: Illegal enum value for parameter: ''
                             @ param @ ''/'' @ value)])
             | Some v \<Rightarrow> (Inr True, store_parameter this param v, [DecoderChanged]))
          else
            (case parse_value lc (defaultValue nutiParam) value of
               Inl e \<Rightarrow> (Inl e, this, [])
             | Inr val \<Rightarrow> (Inr True, store_parameter this param val, [DecoderChanged])))"

subsection \<open>Style installation\<close>

text \<open>
  The style parsers and the file utilities that \<^verbatim>\<open>updateCurrentStyle\<close> calls:
  \<^item> \<open>loadMap ignore package cartoCSS\<close> is \<^verbatim>\<open>css::CartoCSSMapLoader::loadMap\<close>, of a loader
    made with the asset loader of path \<^verbatim>\<open>""\<close> on the package and with
    \<^verbatim>\<open>setIgnoreLayerPredicates(ignore)\<close>;
  \<^item> \<open>load_buffer data\<close> is \<^verbatim>\<open>pugi::xml_document::load_buffer\<close>, and
    \<open>parseMap data\<close> is \<^verbatim>\<open>mvt::MapParser::parseMap\<close> on the document loaded from \<open>data\<close>;
  \<^item> \<open>loadMapProject ignore path package name\<close> is \<^verbatim>\<open>CartoCSSMapLoader::loadMapProject\<close>;
  \<^item> \<open>loadBitmapPattern\<close> is \<^verbatim>\<open>vt::BitmapManager::loadBitmapPattern\<close> at scale 1.
  A parser that throws returns \<open>Inl\<close> of \<^verbatim>\<open>ex.what()\<close>.
\<close>

record 'd StyleLibrary =
  loadMap :: "bool \<Rightarrow> AssetPackage option \<Rightarrow> string \<Rightarrow> string + 'd Map"
  load_buffer :: "bytes \<Rightarrow> bool"
  parseMap :: "bytes \<Rightarrow> string + 'd Map"
  loadMapProject :: "bool \<Rightarrow> string \<Rightarrow> AssetPackage option \<Rightarrow> string \<Rightarrow> string + 'd Map"
  GetFilePath :: "string \<Rightarrow> string"
  NormalizePath :: "string \<Rightarrow> string"
  loadBitmapPattern :: "BitmapManager \<Rightarrow> string \<Rightarrow> bytes option"

text \<open>\<^verbatim>\<open>boost::algorithm::ends_with\<close>\<close>

definition ends_with :: "string \<Rightarrow> string \<Rightarrow> bool" where
  "ends_with input test =
     (length test \<le> length input \<and> drop (length input - length test) input = test)"

text \<open>
  Lines 461 to 525: the asset name, the asset package and the parsed map of a style set,
  or the exception thrown. The last branch of the source, for a variant that holds
  neither kind of style set, has no value of \<open>StyleSet\<close> to reach it.
\<close>

definition loadStyleMap ::
  "'d StyleLibrary \<Rightarrow> bool \<Rightarrow> StyleSet \<Rightarrow> exception + (string \<times> AssetPackage option \<times> 'd Map)" where
  "loadStyleMap lib ignoreLayerNames style =
     (case style of
        CartoCSS cartoCSSStyleSet \<Rightarrow>
          (case loadMap lib ignoreLayerNames (css_assetPackage cartoCSSStyleSet)
                  (css_cartoCSS cartoCSSStyleSet) of
             Inl what \<Rightarrow> Inl (ParseException ''CartoCSS style parsing failed'' (Some what))
           | Inr m \<Rightarrow> Inr ([], css_assetPackage cartoCSSStyleSet, m))
      | Compiled compiledStyleSet \<Rightarrow>
          let styleAssetName = cs_styleAssetName compiledStyleSet in
          if styleAssetName = [] then
            Inl (InvalidArgumentException ''Could not find any styles in the style set'')
          else
            let styleSetData = cs_assetPackage compiledStyleSet;
                styleData = (case styleSetData of
                               Some package \<Rightarrow> loadAsset package styleAssetName
                             | None \<Rightarrow> None) in
            (case styleData of
               None \<Rightarrow> Inl (GenericException ''Failed to load style description asset'')
             | Some data \<Rightarrow>
                 if ends_with styleAssetName ''.xml'' then
                   (if \<not> load_buffer lib data then
                      Inl (ParseException ''Style element XML parsing failed'' None)
                    else
                      (case parseMap lib data of
                         Inl what \<Rightarrow> Inl (ParseException ''XML style processing failed'' (Some what))
                       | Inr m \<Rightarrow> Inr (styleAssetName, styleSetData, m)))
                 else if ends_with styleAssetName ''.json'' then
                   (case loadMapProject lib ignoreLayerNames (GetFilePath lib styleAssetName)
                           styleSetData styleAssetName of
                      Inl what \<Rightarrow> Inl (ParseException ''CartoCSS style parsing failed'' (Some what))
                    | Inr m \<Rightarrow> Inr (styleAssetName, styleSetData, m))
                 else Inl (GenericException ''Failed to detect style asset type'')))"

text \<open>Lines 527 to 530: every declared parameter gets its default value.\<close>

definition defaultParameterValues :: "'d Map \<Rightarrow> (string \<rightharpoonup> 'd Value)" where
  "defaultParameterValues m =
     fold (\<lambda>(name, nutiParam) values. values(name \<mapsto> defaultValue nutiParam))
       (nutiParameterMap m) Map.empty"

text \<open>Lines 544 to 550: the fonts are the assets under the font directory that load.\<close>

fun loadFonts :: "AssetPackage \<Rightarrow> string \<Rightarrow> string list \<Rightarrow> bytes list" where
  "loadFonts package fontPrefix [] = []"
| "loadFonts package fontPrefix (assetName # assetNames) =
     (if length assetName > length fontPrefix \<and> take (length fontPrefix) assetName = fontPrefix
      then (case loadAsset package assetName of
              Some fontData \<Rightarrow> fontData # loadFonts package fontPrefix assetNames
            | None \<Rightarrow> loadFonts package fontPrefix assetNames)
      else loadFonts package fontPrefix assetNames)"

text \<open>
  The values that \<^verbatim>\<open>updateCurrentStyle\<close> computes before it assigns them to the fields
  (lines 461 to 556).
\<close>

record 'd CurrentStyle =
  new_map :: "'d Map"
  new_parameterValueMap :: "string \<rightharpoonup> 'd Value"
  new_backgroundPattern :: "bytes option"
  new_symbolizerContext :: "'d SymbolizerContext"

definition buildCurrentStyle ::
  "'d StyleLibrary \<Rightarrow> bool \<Rightarrow> StyleSet \<Rightarrow> exception + 'd CurrentStyle" where
  "buildCurrentStyle lib ignoreLayerNames style =
     (case loadStyleMap lib ignoreLayerNames style of
        Inl e \<Rightarrow> Inl e
      | Inr (styleAssetName, styleSetData, m) \<Rightarrow>
          let values = defaultParameterValues m;
              bitmapManager = \<lparr>bm_filePath = GetFilePath lib styleAssetName,
                               bm_assetPackage = styleSetData\<rparr>;
              fonts = (case styleSetData of
                         Some package \<Rightarrow>
                           loadFonts package
                             (NormalizePath lib (GetFilePath lib styleAssetName
                                @ fontDirectory (mapSettings m) @ ''/''))
                             (getAssetNames package)
                       | None \<Rightarrow> []);
              pattern = (if backgroundImage (mapSettings m) \<noteq> []
                         then loadBitmapPattern lib bitmapManager (backgroundImage (mapSettings m))
                         else None) in
          Inr \<lparr>new_map = m,
               new_parameterValueMap = values,
               new_backgroundPattern = pattern,
               new_symbolizerContext =
                 \<lparr>getBitmapManager = bitmapManager,
                  getFontManager = \<lparr>fm_width = GLYPHMAP_SIZE, fm_height = GLYPHMAP_SIZE,
                                    fm_fonts = fonts\<rparr>,
                  getStrokeMap = STROKEMAP_SIZE,
                  getGlyphMap = (GLYPHMAP_SIZE, GLYPHMAP_SIZE),
                  getSettings = \<lparr>tileSize = DEFAULT_TILE_SIZE,
                                 nutiParameterValueMap = values\<rparr>\<rparr>\<rparr>)"

text \<open>Lines 558 to 562 assign the fields; an exception leaves them as they were.\<close>

definition updateCurrentStyle ::
  "'d StyleLibrary \<Rightarrow> ('d, 'f, 'fd) MBVectorTileDecoder \<Rightarrow> StyleSet \<Rightarrow>
     (exception + unit) \<times> ('d, 'f, 'fd) MBVectorTileDecoder \<times> event list" where
  "updateCurrentStyle lib this style =
     (case buildCurrentStyle lib (cartoCSSLayerNamesIgnored this) style of
        Inl e \<Rightarrow> (Inl e, this, [])
      | Inr current \<Rightarrow>
          (Inr (),
           this\<lparr>map' := new_map current,
                parameterValueMap := new_parameterValueMap current,
                backgroundPattern := new_backgroundPattern current,
                symbolizerContext := new_symbolizerContext current,
                styleSet := style\<rparr>,
           []))"

text \<open>
  The constructors: a null pointer is \<open>None\<close>. The fields are initialised and then
  assigned by \<^verbatim>\<open>updateCurrentStyle\<close>; \<open>zero\<close> is the \<^verbatim>\<open>float\<close> 0 of \<^verbatim>\<open>_buffer(0)\<close>.
\<close>

definition constructed ::
  "'f \<Rightarrow> StyleSet \<Rightarrow> 'd CurrentStyle \<Rightarrow> ('d, 'f, 'fd) MBVectorTileDecoder" where
  "constructed zero style current =
     \<lparr>buffer = zero,
      featureIdOverride = False,
      cartoCSSLayerNamesIgnored = False,
      layerNameOverride = [],
      map' = new_map current,
      parameterValueMap = new_parameterValueMap current,
      backgroundPattern = new_backgroundPattern current,
      symbolizerContext = new_symbolizerContext current,
      styleSet = style,
      cachedFeatureDecoder = None\<rparr>"

definition new_from_CompiledStyleSet ::
  "'d StyleLibrary \<Rightarrow> 'f \<Rightarrow> CompiledStyleSet option \<Rightarrow> exception + ('d, 'f, 'fd) MBVectorTileDecoder" where
  "new_from_CompiledStyleSet lib zero compiledStyleSet =
     (case compiledStyleSet of
        None \<Rightarrow> Inl (NullArgumentException ''Null compiledStyleSet'')
      | Some style \<Rightarrow>
          (case buildCurrentStyle lib False (Compiled style) of
             Inl e \<Rightarrow> Inl e
           | Inr current \<Rightarrow> Inr (constructed zero (Compiled style) current)))"

definition new_from_CartoCSSStyleSet ::
  "'d StyleLibrary \<Rightarrow> 'f \<Rightarrow> CartoCSSStyleSet option \<Rightarrow> exception + ('d, 'f, 'fd) MBVectorTileDecoder" where
  "new_from_CartoCSSStyleSet lib zero cartoCSSStyleSet =
     (case cartoCSSStyleSet of
        None \<Rightarrow> Inl (NullArgumentException ''Null cartoCSSStyleSet'')
      | Some style \<Rightarrow>
          (case buildCurrentStyle lib False (CartoCSS style) of
             Inl e \<Rightarrow> Inl e
           | Inr current \<Rightarrow> Inr (constructed zero (CartoCSS style) current)))"

text \<open>The setters notify after a style was installed.\<close>

definition installStyle ::
  "'d StyleLibrary \<Rightarrow> ('d, 'f, 'fd) MBVectorTileDecoder \<Rightarrow> StyleSet \<Rightarrow>
     (exception + unit) \<times> ('d, 'f, 'fd) MBVectorTileDecoder \<times> event list" where
  "installStyle lib this style =
     (case updateCurrentStyle lib this style of
        (Inl e, this', events) \<Rightarrow> (Inl e, this', events)
      | (Inr u, this', events) \<Rightarrow> (Inr (), this', events @ [DecoderChanged]))"

definition setCompiledStyleSet ::
  "'d StyleLibrary \<Rightarrow> ('d, 'f, 'fd) MBVectorTileDecoder \<Rightarrow> CompiledStyleSet option \<Rightarrow>
     (exception + unit) \<times> ('d, 'f, 'fd) MBVectorTileDecoder \<times> event list" where
  "setCompiledStyleSet lib this style =
     (case style of
        None \<Rightarrow> (Inl (NullArgumentException ''Null styleSet''), this, [])
      | Some compiledStyleSet \<Rightarrow> installStyle lib this (Compiled compiledStyleSet))"

definition setCartoCSSStyleSet ::
  "'d StyleLibrary \<Rightarrow> ('d, 'f, 'fd) MBVectorTileDecoder \<Rightarrow> CartoCSSStyleSet option \<Rightarrow>
     (exception + unit) \<times> ('d, 'f, 'fd) MBVectorTileDecoder \<times> event list" where
  "setCartoCSSStyleSet lib this style =
     (case style of
        None \<Rightarrow> (Inl (NullArgumentException ''Null styleSet''), this, [])
      | Some cartoCSSStyleSet \<Rightarrow> installStyle lib this (CartoCSS cartoCSSStyleSet))"

subsection \<open>Geometry conversion\<close>

text \<open>
  A wire geometry (\<^verbatim>\<open>carto::mvt::Geometry\<close>) is one of three classes, with its vertices
  in tile-local \<^verbatim>\<open>float\<close> coordinates; a converted geometry (\<^verbatim>\<open>carto::Geometry\<close>)
  is one of six classes. A null pointer is \<open>None\<close>.
\<close>

datatype 'd MapPos = MapPos 'd 'd 'd

datatype 'd MapBounds = MapBounds (getMin: "'d MapPos") (getMax: "'d MapPos")

fun getX :: "'d MapPos \<Rightarrow> 'd" where "getX (MapPos px py pz) = px"
fun getY :: "'d MapPos \<Rightarrow> 'd" where "getY (MapPos px py pz) = py"
fun getZ :: "'d MapPos \<Rightarrow> 'd" where "getZ (MapPos px py pz) = pz"

datatype 'f mvt_Geometry =
    mvt_PointGeometry "('f \<times> 'f) list"
  | mvt_LineGeometry "('f \<times> 'f) list list"
  | mvt_PolygonGeometry "('f \<times> 'f) list list list"

datatype 'd Geometry =
    PointGeometry "'d MapPos"
  | LineGeometry "'d MapPos list"
  | PolygonGeometry "'d MapPos list list"
  | MultiPointGeometry "'d Geometry list"
  | MultiLineGeometry "'d Geometry list"
  | MultiPolygonGeometry "'d Geometry list"

definition convertPoints :: "('f \<times> 'f \<Rightarrow> 'd MapPos) \<Rightarrow> ('f \<times> 'f) list \<Rightarrow> 'd MapPos list" where
  "convertPoints convertFn poses = map convertFn poses"

definition convertPointsList ::
  "('f \<times> 'f \<Rightarrow> 'd MapPos) \<Rightarrow> ('f \<times> 'f) list list \<Rightarrow> 'd MapPos list list" where
  "convertPointsList convertFn posesList = map (convertPoints convertFn) posesList"

definition convertPointsLists ::
  "('f \<times> 'f \<Rightarrow> 'd MapPos) \<Rightarrow> ('f \<times> 'f) list list list \<Rightarrow> 'd MapPos list list list" where
  "convertPointsLists convertFn posesLists = map (convertPointsList convertFn) posesLists"

definition convertGeometry ::
  "('f \<times> 'f \<Rightarrow> 'd MapPos) \<Rightarrow> 'f mvt_Geometry option \<Rightarrow> 'd Geometry option" where
  "convertGeometry convertFn mvtGeometry =
     (case mvtGeometry of
        Some (mvt_PointGeometry vertices) \<Rightarrow>
          let points = map PointGeometry (convertPoints convertFn vertices) in
          if length points = 1 then Some (hd points) else Some (MultiPointGeometry points)
      | Some (mvt_LineGeometry verticesList) \<Rightarrow>
          let lines = map LineGeometry (convertPointsList convertFn verticesList) in
          if length lines = 1 then Some (hd lines) else Some (MultiLineGeometry lines)
      | Some (mvt_PolygonGeometry polygonList) \<Rightarrow>
          let polygons = map PolygonGeometry (convertPointsLists convertFn polygonList) in
          if length polygons = 1 then Some (hd polygons) else Some (MultiPolygonGeometry polygons)
      | None \<Rightarrow> None)"

text \<open>
  The arithmetic of \<^verbatim>\<open>double\<close> that the conversion of a position uses, and the
  promotion of a \<^verbatim>\<open>float\<close>.
\<close>

record ('d, 'f) Arithmetic =
  double_plus :: "'d \<Rightarrow> 'd \<Rightarrow> 'd"
  double_minus :: "'d \<Rightarrow> 'd \<Rightarrow> 'd"
  double_times :: "'d \<Rightarrow> 'd \<Rightarrow> 'd"
  double_of_float :: "'f \<Rightarrow> 'd"
  double_zero :: 'd

text \<open>
  Modelled from the spec: \<^verbatim>\<open>MapBounds::getDelta\<close> is declared in \<^verbatim>\<open>core/MapBounds.h\<close>;
  the extent of the bounds on each axis is the maximum minus the minimum.
\<close>

definition getDelta :: "('d, 'f) Arithmetic \<Rightarrow> 'd MapBounds \<Rightarrow> 'd MapPos" where
  "getDelta ar bounds =
     MapPos (double_minus ar (getX (getMax bounds)) (getX (getMin bounds)))
            (double_minus ar (getY (getMax bounds)) (getY (getMin bounds)))
            (double_minus ar (getZ (getMax bounds)) (getZ (getMin bounds)))"

text \<open>The lambda of lines 404 to 406.\<close>

definition convertFn :: "('d, 'f) Arithmetic \<Rightarrow> 'd MapBounds \<Rightarrow> 'f \<times> 'f \<Rightarrow> 'd MapPos" where
  "convertFn ar tileBounds pos =
     MapPos (double_plus ar (getX (getMin tileBounds))
               (double_times ar (double_of_float ar (fst pos)) (getX (getDelta ar tileBounds))))
            (double_minus ar (getY (getMax tileBounds))
               (double_times ar (double_of_float ar (snd pos)) (getY (getDelta ar tileBounds))))
            (double_zero ar)"

subsection \<open>decodeFeature and decodeTile\<close>

text \<open>
  \<^verbatim>\<open>carto::Variant\<close>, as far as \<^verbatim>\<open>ValueConverter\<close> and the attribute map build it.
\<close>

datatype 'd Variant =
    VariantNull
  | VariantBool bool
  | VariantInteger "64 word"
  | VariantDouble 'd
  | VariantString string
  | VariantObject "string \<Rightarrow> 'd Variant option"

fun ValueConverter :: "'d Value \<Rightarrow> 'd Variant" where
  "ValueConverter Blank = VariantNull"
| "ValueConverter (BoolValue val) = VariantBool val"
| "ValueConverter (LongValue val) = VariantInteger val"
| "ValueConverter (DoubleValue val) = VariantDouble val"
| "ValueConverter (StringValue val) = VariantString val"

text \<open>
  \<^verbatim>\<open>mvt::FeatureData\<close> and \<^verbatim>\<open>mvt::Feature\<close>. \<^verbatim>\<open>getVariable\<close> leaves its output
  argument as it was, a blank value, for a name it does not have.
\<close>

record 'd mvt_FeatureData =
  getVariableNames :: "string list"
  getVariable :: "string \<Rightarrow> 'd Value option"

record ('d, 'f) mvt_Feature =
  mvt_getId :: "64 word"
  mvt_getGeometry :: "'f mvt_Geometry option"
  mvt_getFeatureData :: "'d mvt_FeatureData option"

record 'd Feature =
  getGeometry :: "'d Geometry option"
  getProperties :: "'d Variant"

record 'd TileFeature =
  getId :: "64 word"
  getLayerName :: string
  getFeature :: "'d Feature"

datatype TileId = TileId int int int

text \<open>
  The tile library: the constructor of \<^verbatim>\<open>mvt::MBVTFeatureDecoder\<close>, its \<^verbatim>\<open>getFeature\<close>
  (the layer name is its output argument), and the pipeline of lines 440 to 447, which
  sets the transform, the buffer and the id override of the decoder and the layer name
  override of the reader and reads the target tile. A call that throws returns \<open>Inl\<close> of
  what it throws: an exception of a class derived from \<^verbatim>\<open>std::exception\<close>, with its
  message \<^verbatim>\<open>what()\<close>, or an object of any other type. The \<^verbatim>\<open>catch\<close> clauses of
  \<^verbatim>\<open>decodeFeature\<close> and \<^verbatim>\<open>decodeTile\<close> take \<^verbatim>\<open>const std::exception&\<close>, so they catch the
  first and not the second.
\<close>

datatype thrown = std_exception_thrown string | other_thrown

record 'f TileReaderSetup =
  setup_tile :: TileId
  setup_buffer :: 'f
  setup_featureIdOverride :: bool
  setup_layerNameOverride :: string

record ('d, 'f, 'fd, 'tile) TileLibrary =
  new_MBVTFeatureDecoder :: "bytes \<Rightarrow> thrown + 'fd"
  decoder_getFeature :: "'fd \<Rightarrow> 64 word \<Rightarrow> thrown + (string \<times> ('d, 'f) mvt_Feature) option"
  readTile :: "'d Map \<Rightarrow> 'd SymbolizerContext \<Rightarrow> 'fd \<Rightarrow> 'f TileReaderSetup \<Rightarrow> TileId \<Rightarrow>
               thrown + 'tile option"

text \<open>
  Lines 375 to 387, in the two critical sections of the source. The first looks the
  payload up in the cache. On a miss the lock is released while the payload is parsed,
  and the second critical section assigns the cache; \<open>reacquired\<close> is the object as the
  second critical section finds it.
\<close>

definition lookupCachedDecoder :: "('d, 'f, 'fd) MBVectorTileDecoder \<Rightarrow> BinaryData \<Rightarrow> 'fd option" where
  "lookupCachedDecoder this tileData =
     (case cachedFeatureDecoder this of
        Some (cached, decoder) \<Rightarrow> if cached \<noteq> address tileData then None else Some decoder
      | None \<Rightarrow> None)"

definition installCachedDecoder ::
  "('d, 'f, 'fd) MBVectorTileDecoder \<Rightarrow> BinaryData \<Rightarrow> 'fd \<Rightarrow> ('d, 'f, 'fd) MBVectorTileDecoder" where
  "installCachedDecoder reacquired tileData decoder =
     reacquired\<lparr>cachedFeatureDecoder := Some (address tileData, decoder)\<rparr>"

definition acquireDecoder ::
  "('d, 'f, 'fd, 'tile) TileLibrary \<Rightarrow> ('d, 'f, 'fd) MBVectorTileDecoder \<Rightarrow>
     ('d, 'f, 'fd) MBVectorTileDecoder \<Rightarrow> BinaryData \<Rightarrow>
     (thrown + 'fd) \<times> ('d, 'f, 'fd) MBVectorTileDecoder" where
  "acquireDecoder lib this reacquired tileData =
     (case lookupCachedDecoder this tileData of
        Some decoder \<Rightarrow> (Inr decoder, this)
      | None \<Rightarrow>
          (case new_MBVTFeatureDecoder lib (dataPtr tileData) of
             Inl ex \<Rightarrow> (Inl ex, reacquired)
           | Inr decoder \<Rightarrow> (Inr decoder, installCachedDecoder reacquired tileData decoder)))"

text \<open>Lines 395 to 402.\<close>

definition convertFeatureData :: "'d mvt_FeatureData option \<Rightarrow> (string \<Rightarrow> 'd Variant option)" where
  "convertFeatureData mvtFeatureData =
     (case mvtFeatureData of
        None \<Rightarrow> Map.empty
      | Some fd \<Rightarrow>
          fold (\<lambda>varName featureData.
                  featureData(varName \<mapsto>
                    ValueConverter (case getVariable fd varName of Some v \<Rightarrow> v | None \<Rightarrow> Blank)))
            (getVariableNames fd) Map.empty)"

text \<open>
  The body of the \<^verbatim>\<open>try\<close> block of \<^verbatim>\<open>decodeFeature\<close>, for one caller: the object the
  second critical section finds is the object the first one left.
\<close>

definition decodeFeature_try ::
  "('d, 'f, 'fd, 'tile) TileLibrary \<Rightarrow> ('d, 'f) Arithmetic \<Rightarrow> ('d, 'f, 'fd) MBVectorTileDecoder \<Rightarrow>
     64 word \<Rightarrow> BinaryData \<Rightarrow> 'd MapBounds \<Rightarrow>
     (thrown + 'd TileFeature option) \<times> ('d, 'f, 'fd) MBVectorTileDecoder" where
  "decodeFeature_try lib ar this featureId tileData tileBounds =
     (case acquireDecoder lib this this tileData of
        (Inl ex, this') \<Rightarrow> (Inl ex, this')
      | (Inr decoder, this') \<Rightarrow>
          (case decoder_getFeature lib decoder featureId of
             Inl ex \<Rightarrow> (Inl ex, this')
           | Inr None \<Rightarrow> (Inr None, this')
           | Inr (Some (mvtLayerName, mvtFeature)) \<Rightarrow>
               let featureData = convertFeatureData (mvt_getFeatureData mvtFeature);
                   feature = \<lparr>getGeometry = convertGeometry (convertFn ar tileBounds)
                                               (mvt_getGeometry mvtFeature),
                              getProperties = VariantObject featureData\<rparr> in
               (Inr (Some \<lparr>getId = mvt_getId mvtFeature, getLayerName = mvtLayerName,
                           getFeature = feature\<rparr>), this')))"

definition decodeFeature ::
  "('d, 'f, 'fd, 'tile) TileLibrary \<Rightarrow> ('d, 'f) Arithmetic \<Rightarrow> ('d, 'f, 'fd) MBVectorTileDecoder \<Rightarrow>
     64 word \<Rightarrow> TileId \<Rightarrow> BinaryData option \<Rightarrow> 'd MapBounds \<Rightarrow>
     (thrown + 'd TileFeature option) \<times> ('d, 'f, 'fd) MBVectorTileDecoder \<times> event list" where
  "decodeFeature lib ar this featureId tile tileData tileBounds =
     (case tileData of
        None \<Rightarrow> (Inr None, this, [Log Warn ''MBVectorTileDecoder::decodeFeature: Null tile data''])
      | Some data \<Rightarrow>
          if dataPtr data = [] then (Inr None, this, [])
          else
            (case decodeFeature_try lib ar this featureId data tileBounds of
               (Inl (std_exception_thrown what), this') \<Rightarrow>
                 (Inr None, this',
                  [Log Error (''MBVectorTileDecoder::decodeFeature: Exception while decoding: '' @ what)])
             | (Inl other_thrown, this') \<Rightarrow> (Inl other_thrown, this', [])
             | (Inr result, this') \<Rightarrow> (Inr result, this', [])))"



subsection \<open>A style with two parameters\<close>

text \<open>
  A style model that declares the boolean parameter \<^verbatim>\<open>show_labels\<close>, default true, and the
  enum parameter \<^verbatim>\<open>theme\<close> with the labels \<^verbatim>\<open>dark\<close> and \<^verbatim>\<open>light\<close>; a style library
  whose parsers return it; and the decoder object that the constructor makes from a
  CartoCSS style set. The \<^verbatim>\<open>double\<close> of the examples is a natural number, written in
  decimal digits.
\<close>

definition example_Map :: "nat Map" where
  "example_Map =
     \<lparr>nutiParameterMap =
        [(''show_labels'', \<lparr>defaultValue = BoolValue True, enumMap = []\<rparr>),
         (''theme'', \<lparr>defaultValue = LongValue 0,
                      enumMap = [(''dark'', LongValue 1), (''light'', LongValue 0)]\<rparr>)],
      mapSettings = \<lparr>backgroundColor = 0, backgroundImage = [], fontDirectory = ''fonts''\<rparr>\<rparr>"

definition example_lexical_cast_double :: "nat lexical_cast_double" where
  "example_lexical_cast_double =
     \<lparr>string_of_double = decimal,
      double_of_string = (\<lambda>s. if s \<noteq> [] \<and> list_all is_digit s then Some (decimal_value s) else None)\<rparr>"

definition example_StyleLibrary :: "nat StyleLibrary" where
  "example_StyleLibrary =
     \<lparr>loadMap = (\<lambda>ignore package cartoCSS.
                   if cartoCSS = [] then Inl ''empty style'' else Inr example_Map),
      load_buffer = (\<lambda>data. data \<noteq> []),
      parseMap = (\<lambda>data. Inr example_Map),
      loadMapProject = (\<lambda>ignore path package name. Inr example_Map),
      GetFilePath = (\<lambda>name. []),
      NormalizePath = (\<lambda>path. path),
      loadBitmapPattern = (\<lambda>manager name. None)\<rparr>"

definition example_CartoCSSStyleSet :: CartoCSSStyleSet where
  "example_CartoCSSStyleSet = \<lparr>css_cartoCSS = ''#layer { }'', css_assetPackage = None\<rparr>"

definition example_decoder :: "(nat, nat, nat) MBVectorTileDecoder" where
  "example_decoder =
     projr (new_from_CartoCSSStyleSet example_StyleLibrary 0 (Some example_CartoCSSStyleSet))"

subsection \<open>The invariant of the parameter values and the contracts of the libraries\<close>

text \<open>
  Every key of the parameter value map is a declared parameter, and its value has the
  kind of the parameter's default value or is a value of the parameter's enum map.
\<close>

definition parameterValueMap_invariant :: "('d, 'f, 'fd) MBVectorTileDecoder \<Rightarrow> bool" where
  "parameterValueMap_invariant this =
     (\<forall>name value. parameterValueMap this name = Some value \<longrightarrow>
        (\<exists>nutiParam. map_of (nutiParameterMap (map' this)) name = Some nutiParam
           \<and> (which value = which (defaultValue nutiParam)
                \<or> value \<in> snd ` set (enumMap nutiParam))))"


text \<open>The maps that the parsers return are well-formed.\<close>

definition wf_StyleLibrary :: "'d StyleLibrary \<Rightarrow> bool" where
  "wf_StyleLibrary lib =
     ((\<forall>ignore package cartoCSS m. loadMap lib ignore package cartoCSS = Inr m \<longrightarrow> wf_Map m)
      \<and> (\<forall>data m. parseMap lib data = Inr m \<longrightarrow> wf_Map m)
      \<and> (\<forall>ignore path package name m.
            loadMapProject lib ignore path package name = Inr m \<longrightarrow> wf_Map m))"

subsection \<open>The classes of geometries\<close>

text \<open>
  The class of a converted geometry, and for a wire geometry the number of its parts
  (vertices of a point geometry, vertex lists of a line geometry, polygons of a polygon
  geometry), its singular class and its multi class.
\<close>

datatype GeometryType = POINT | LINE | POLYGON | MULTIPOINT | MULTILINE | MULTIPOLYGON

fun geometryType :: "'d Geometry \<Rightarrow> GeometryType" where
  "geometryType (PointGeometry pos) = POINT"
| "geometryType (LineGeometry poses) = LINE"
| "geometryType (PolygonGeometry rings) = POLYGON"
| "geometryType (MultiPointGeometry points) = MULTIPOINT"
| "geometryType (MultiLineGeometry lines) = MULTILINE"
| "geometryType (MultiPolygonGeometry polygons) = MULTIPOLYGON"

fun wireParts :: "'f mvt_Geometry \<Rightarrow> nat" where
  "wireParts (mvt_PointGeometry vertices) = length vertices"
| "wireParts (mvt_LineGeometry verticesList) = length verticesList"
| "wireParts (mvt_PolygonGeometry polygonList) = length polygonList"

fun singularType :: "'f mvt_Geometry \<Rightarrow> GeometryType" where
  "singularType (mvt_PointGeometry vertices) = POINT"
| "singularType (mvt_LineGeometry verticesList) = LINE"
| "singularType (mvt_PolygonGeometry polygonList) = POLYGON"

fun multiType :: "'f mvt_Geometry \<Rightarrow> GeometryType" where
  "multiType (mvt_PointGeometry vertices) = MULTIPOINT"
| "multiType (mvt_LineGeometry verticesList) = MULTILINE"
| "multiType (mvt_PolygonGeometry polygonList) = MULTIPOLYGON"

subsection \<open>A tile library and a payload\<close>

text \<open>
  A tile library that rejects a payload whose first byte is 0 with an exception derived
  from \<^verbatim>\<open>std::exception\<close> and one whose first byte is 255 with an object of another
  type, and otherwise makes the decoder that is the length of the payload; feature 0 makes \<^verbatim>\<open>getFeature\<close> throw, feature
  1 is a line of one part in the layer \<^verbatim>\<open>roads\<close>, and there is no other feature. The
  arithmetic of the examples is that of the natural numbers.
\<close>

definition example_Arithmetic :: "(nat, nat) Arithmetic" where
  "example_Arithmetic =
     \<lparr>double_plus = (\<lambda>a b. a + b), double_minus = (\<lambda>a b. a - b),
      double_times = (\<lambda>a b. a * b), double_of_float = (\<lambda>a. a), double_zero = 0\<rparr>"

definition example_Feature :: "(nat, nat) mvt_Feature" where
  "example_Feature =
     \<lparr>mvt_getId = 1,
      mvt_getGeometry = Some (mvt_LineGeometry [[(0, 0), (1, 1)]]),
      mvt_getFeatureData = Some \<lparr>getVariableNames = [''name''],
                                  getVariable = [''name'' \<mapsto> StringValue ''A1'']\<rparr>\<rparr>"

definition example_TileLibrary :: "(nat, nat, nat, nat) TileLibrary" where
  "example_TileLibrary =
     \<lparr>new_MBVTFeatureDecoder = (\<lambda>data.
         case data of
           [] \<Rightarrow> Inl (std_exception_thrown ''empty tile'')
         | first # rest \<Rightarrow>
             if first = 0 then Inl (std_exception_thrown ''bad tile'')
             else if first = 255 then Inl other_thrown
             else Inr (length data)),
      decoder_getFeature = (\<lambda>decoder featureId.
         if featureId = 0 then Inl (std_exception_thrown ''bad feature'')
         else if featureId = 1 then Inr (Some (''roads'', example_Feature))
         else Inr None),
      readTile = (\<lambda>m context decoder setup targetTile. Inr (Some decoder))\<rparr>"

definition example_payload :: BinaryData where
  "example_payload = \<lparr>address = 7, dataPtr = [1, 2, 3]\<rparr>"

definition example_bounds :: "nat MapBounds" where
  "example_bounds = MapBounds (MapPos 10 20 0) (MapPos 30 60 0)"

text \<open>A compiled style set whose style asset is an empty XML file.\<close>

definition example_broken_xml :: CompiledStyleSet where
  "example_broken_xml =
     \<lparr>cs_styleAssetName = ''style.xml'',
      cs_assetPackage = Some \<lparr>getAssetNames = [''style.xml''],
                               loadAsset = (\<lambda>name. if name = ''style.xml'' then Some [] else None)\<rparr>\<rparr>"

section \<open>Properties\<close>

subsection \<open>Decimal digits and the casts\<close>












subsection \<open>The default values and the example object\<close>

lemma defaultParameterValues_fold:
  "distinct (map fst ps) \<Longrightarrow>
   fold (\<lambda>(name, nutiParam) values. values(name \<mapsto> defaultValue nutiParam)) ps acc name =
     (case map_of ps name of Some p \<Rightarrow> Some (defaultValue p) | None \<Rightarrow> acc name)"
proof (induction ps arbitrary: acc)
  case Nil
  then show ?case by simp
next
  case (Cons entry ps)
  obtain k p where entry: "entry = (k, p)" by (cases entry)
  from Cons.prems entry have k: "k \<notin> fst ` set ps" and d: "distinct (map fst ps)"
    by auto
  from k have none: "map_of ps k = None"
    by (simp add: map_of_eq_None_iff)
  show ?case
    using Cons.IH [OF d, of "acc(k \<mapsto> defaultValue p)"] entry none
    by (auto split: option.splits)
qed

lemma defaultParameterValues_lookup:
  "wf_Map m \<Longrightarrow>
   defaultParameterValues m name = map_option defaultValue (map_of (nutiParameterMap m) name)"
  by (simp add: defaultParameterValues_def wf_Map_def defaultParameterValues_fold
      split: option.splits)

lemma store_parameter_fields:
  "map' (store_parameter this param val) = map' this"
  "parameterValueMap (store_parameter this param val) = (parameterValueMap this)(param \<mapsto> val)"
  "cachedFeatureDecoder (store_parameter this param val) = cachedFeatureDecoder this"
  by (simp_all add: store_parameter_def Let_def)

lemma example_decoder_fields:
  "map' example_decoder = example_Map"
  "parameterValueMap example_decoder = [''show_labels'' \<mapsto> BoolValue True, ''theme'' \<mapsto> LongValue 0]"
  "cachedFeatureDecoder example_decoder = None"
  by (simp_all add: example_decoder_def new_from_CartoCSSStyleSet_def buildCurrentStyle_def
      loadStyleMap_def example_StyleLibrary_def example_CartoCSSStyleSet_def constructed_def
      defaultParameterValues_def example_Map_def Let_def)

subsection \<open>The parameter store\<close>

text \<open>
  C10: for every name that the current style model does not declare as a parameter,
  \<^verbatim>\<open>getStyleParameter\<close> throws \<^verbatim>\<open>InvalidArgumentException\<close> (it returns no string, empty
  or default), where \<^verbatim>\<open>setStyleParameter\<close> returns false for the same name.
\<close>

theorem getStyleParameter_undeclared_throws:
  "param \<notin> fst ` set (nutiParameterMap (map' this)) \<Longrightarrow>
   getStyleParameter lc this param = Inl (InvalidArgumentException ''Could not find parameter'')
   \<and> fst (setStyleParameter lc this param value) = Inr False"
  by (simp add: getStyleParameter_def setStyleParameter_def map_of_eq_None_iff [THEN iffD2])

theorem getStyleParameter_undeclared_throws_witness:
  "''labels'' \<notin> fst ` set (nutiParameterMap (map' example_decoder))
   \<and> getStyleParameter example_lexical_cast_double example_decoder ''labels''
       = Inl (InvalidArgumentException ''Could not find parameter'')
   \<and> fst (setStyleParameter example_lexical_cast_double example_decoder ''labels'' ''1'') = Inr False"
proof -
  have undeclared: "''labels'' \<notin> fst ` set (nutiParameterMap (map' example_decoder))"
    by (simp add: example_decoder_fields example_Map_def)
  show ?thesis
    using undeclared getStyleParameter_undeclared_throws [OF undeclared] by simp
qed

text \<open>
  C1: \<^verbatim>\<open>setStyleParameter\<close> is claimed never to throw, and to return false for a value
  that does not fit the kind of the parameter. On the boolean parameter \<^verbatim>\<open>show_labels\<close>
  and the value \<^verbatim>\<open>maybe\<close> the cast throws, nothing catches the exception, and it leaves
  the function: the call returns no boolean. The parameter values stay as they were and
  nothing is logged.
\<close>

theorem setStyleParameter_malformed_boolean_throws:
  "setStyleParameter example_lexical_cast_double example_decoder ''show_labels'' ''maybe''
     = (Inl bad_lexical_cast, example_decoder, [])"
  by (simp add: setStyleParameter_def parse_value_def lexical_cast_bool_def
      example_decoder_fields example_Map_def)

text \<open>
  C2, as claimed: on a style that declares the boolean parameter \<^verbatim>\<open>show_labels\<close> with
  default true, \<^verbatim>\<open>getStyleParameter\<close> returns the string \<^verbatim>\<open>true\<close>. It does not: the
  cast writes a boolean as a digit.
\<close>

theorem getStyleParameter_boolean_not_literal:
  "getStyleParameter example_lexical_cast_double example_decoder ''show_labels'' \<noteq> Inr ''true''"
  by (simp add: getStyleParameter_def lexical_cast_string_of_bool_def
      example_decoder_fields example_Map_def)

text \<open>
  C2, amended: on a style just installed that declares the boolean parameter
  \<^verbatim>\<open>show_labels\<close> with default true, \<^verbatim>\<open>getStyleParameter\<close> returns \<^verbatim>\<open>1\<close>;
  \<^verbatim>\<open>setStyleParameter\<close> with the value \<^verbatim>\<open>false\<close> returns true and notifies exactly
  once; \<^verbatim>\<open>getStyleParameter\<close> then returns \<^verbatim>\<open>0\<close>.
\<close>

theorem show_labels_scenario:
  assumes "wf_Map (map' this)"
    and "map_of (nutiParameterMap (map' this)) ''show_labels'' = Some p"
    and "defaultValue p = BoolValue True" and "enumMap p = []"
    and "parameterValueMap this = defaultParameterValues (map' this)"
  shows "getStyleParameter lc this ''show_labels'' = Inr ''1''
    \<and> (case setStyleParameter lc this ''show_labels'' ''false'' of
          (result, this', events) \<Rightarrow>
            result = Inr True
            \<and> getStyleParameter lc this' ''show_labels'' = Inr ''0''
            \<and> events = [DecoderChanged])"
  using assms
  by (simp add: getStyleParameter_def setStyleParameter_def parse_value_def store_parameter_fields
      defaultParameterValues_lookup lexical_cast_string_of_bool_def)

theorem show_labels_scenario_witness:
  "wf_Map (map' example_decoder)
   \<and> map_of (nutiParameterMap (map' example_decoder)) ''show_labels''
       = Some \<lparr>defaultValue = BoolValue True, enumMap = []\<rparr>
   \<and> parameterValueMap example_decoder = defaultParameterValues (map' example_decoder)
   \<and> getStyleParameter example_lexical_cast_double example_decoder ''show_labels'' = Inr ''1''
   \<and> (case setStyleParameter example_lexical_cast_double example_decoder ''show_labels'' ''false'' of
         (result, this', events) \<Rightarrow>
           result = Inr True
           \<and> getStyleParameter example_lexical_cast_double this' ''show_labels'' = Inr ''0''
           \<and> events = [DecoderChanged])"
proof -
  have wf: "wf_Map (map' example_decoder)"
    by (simp add: example_decoder_fields example_Map_def wf_Map_def)
  have declared: "map_of (nutiParameterMap (map' example_decoder)) ''show_labels''
      = Some \<lparr>defaultValue = BoolValue True, enumMap = []\<rparr>"
    by (simp add: example_decoder_fields example_Map_def)
  have fresh: "parameterValueMap example_decoder = defaultParameterValues (map' example_decoder)"
    by (simp add: example_decoder_fields example_Map_def defaultParameterValues_def)
  show ?thesis
    using wf declared fresh
      show_labels_scenario [OF wf declared _ _ fresh, of example_lexical_cast_double]
    by simp
qed

subsection \<open>Serialising and parsing a parameter\<close>







subsection \<open>The invariant\<close>

lemma loadStyleMap_wf:
  assumes "wf_StyleLibrary lib" and "loadStyleMap lib ignore style = Inr (name, package, m)"
  shows "wf_Map m"
proof (cases style)
  case (Compiled c)
  with assms(2) have "(\<exists>data. parseMap lib data = Inr m)
      \<or> (\<exists>path. loadMapProject lib ignore path (cs_assetPackage c) (cs_styleAssetName c) = Inr m)"
    by (auto simp: loadStyleMap_def Let_def split: if_splits option.splits sum.splits)
  with assms(1) show ?thesis
    unfolding wf_StyleLibrary_def by blast
next
  case (CartoCSS c)
  with assms(2) have "loadMap lib ignore (css_assetPackage c) (css_cartoCSS c) = Inr m"
    by (auto simp: loadStyleMap_def split: sum.splits)
  with assms(1) show ?thesis
    unfolding wf_StyleLibrary_def by blast
qed

lemma buildCurrentStyle_Inr:
  assumes "buildCurrentStyle lib ignore style = Inr current"
  shows "\<exists>name package. loadStyleMap lib ignore style = Inr (name, package, new_map current)
           \<and> new_parameterValueMap current = defaultParameterValues (new_map current)"
  using assms
  by (auto simp: buildCurrentStyle_def Let_def split: sum.splits prod.splits)

lemma default_values_invariant:
  assumes "wf_Map (map' this)" and "parameterValueMap this = defaultParameterValues (map' this)"
  shows "parameterValueMap_invariant this"
  using assms
  by (auto simp: parameterValueMap_invariant_def defaultParameterValues_lookup)

lemma built_style_invariant:
  assumes "wf_StyleLibrary lib" and "buildCurrentStyle lib ignore style = Inr current"
    and "map' this = new_map current" and "parameterValueMap this = new_parameterValueMap current"
  shows "parameterValueMap_invariant this"
proof -
  from buildCurrentStyle_Inr [OF assms(2)] obtain name package where
    "loadStyleMap lib ignore style = Inr (name, package, new_map current)"
    and defaults: "new_parameterValueMap current = defaultParameterValues (new_map current)"
    by blast
  with assms(1) have "wf_Map (new_map current)"
    by (blast intro: loadStyleMap_wf)
  with defaults assms(3,4) show ?thesis
    by (simp add: default_values_invariant)
qed

lemma invariant_cong:
  "map' this' = map' this \<Longrightarrow> parameterValueMap this' = parameterValueMap this \<Longrightarrow>
   parameterValueMap_invariant this' = parameterValueMap_invariant this"
  by (simp add: parameterValueMap_invariant_def)

lemma updateCurrentStyle_invariant:
  assumes "wf_StyleLibrary lib" and "parameterValueMap_invariant this"
  shows "parameterValueMap_invariant (fst (snd (updateCurrentStyle lib this style)))"
proof (cases "buildCurrentStyle lib (cartoCSSLayerNamesIgnored this) style")
  case (Inl e)
  with assms(2) show ?thesis by (simp add: updateCurrentStyle_def)
next
  case (Inr current)
  show ?thesis
    by (rule built_style_invariant [OF assms(1) Inr]) (simp_all add: updateCurrentStyle_def Inr)
qed

lemma installStyle_state:
  "fst (snd (installStyle lib this style)) = fst (snd (updateCurrentStyle lib this style))"
  by (simp add: installStyle_def split: prod.splits sum.splits)

lemma constructed_invariant:
  assumes "wf_StyleLibrary lib" and "buildCurrentStyle lib ignore style = Inr current"
  shows "parameterValueMap_invariant (constructed zero style current)"
  by (rule built_style_invariant [OF assms]) (simp_all add: constructed_def)

lemma parse_value_kind: "parse_value lc dflt value = Inr val \<Longrightarrow> which val = which dflt"
  by (cases dflt) (auto simp: parse_value_def split: if_splits sum.splits option.splits)

lemma store_parameter_invariant:
  assumes "parameterValueMap_invariant this"
    and "map_of (nutiParameterMap (map' this)) param = Some nutiParam"
    and "which val = which (defaultValue nutiParam) \<or> val \<in> snd ` set (enumMap nutiParam)"
  shows "parameterValueMap_invariant (store_parameter this param val)"
  using assms
  unfolding parameterValueMap_invariant_def store_parameter_fields
  by (auto split: if_splits)

lemma setStyleParameter_invariant:
  assumes "parameterValueMap_invariant this"
  shows "parameterValueMap_invariant (fst (snd (setStyleParameter lc this param value)))"
proof (cases "map_of (nutiParameterMap (map' this)) param")
  case None
  with assms show ?thesis by (simp add: setStyleParameter_def)
next
  case (Some nutiParam)
  show ?thesis
  proof (cases "enumMap nutiParam = []")
    case True
    show ?thesis
    proof (cases "parse_value lc (defaultValue nutiParam) value")
      case (Inl e)
      with assms Some True show ?thesis by (simp add: setStyleParameter_def)
    next
      case (Inr val)
      from parse_value_kind [OF Inr] assms Some
      have "parameterValueMap_invariant (store_parameter this param val)"
        by (simp add: store_parameter_invariant)
      with Some True Inr show ?thesis by (simp add: setStyleParameter_def)
    qed
  next
    case False
    show ?thesis
    proof (cases "map_of (enumMap nutiParam) value")
      case None
      with assms Some False show ?thesis by (simp add: setStyleParameter_def)
    next
      case (Some v)
      then have "v \<in> snd ` set (enumMap nutiParam)"
        by (force dest: map_of_SomeD)
      with assms \<open>map_of (nutiParameterMap (map' this)) param = Some nutiParam\<close>
      have "parameterValueMap_invariant (store_parameter this param v)"
        by (simp add: store_parameter_invariant)
      with \<open>map_of (nutiParameterMap (map' this)) param = Some nutiParam\<close> False Some
      show ?thesis by (simp add: setStyleParameter_def)
    qed
  qed
qed


lemma acquireDecoder_state:
  "\<exists>cache. snd (acquireDecoder lib this this tileData) = this\<lparr>cachedFeatureDecoder := cache\<rparr>"
proof (cases "lookupCachedDecoder this tileData")
  case None
  show ?thesis
  proof (cases "new_MBVTFeatureDecoder lib (dataPtr tileData)")
    case (Inl what)
    with None have "snd (acquireDecoder lib this this tileData)
        = this\<lparr>cachedFeatureDecoder := cachedFeatureDecoder this\<rparr>"
      by (simp add: acquireDecoder_def)
    then show ?thesis by blast
  next
    case (Inr decoder)
    with None show ?thesis
      by (auto simp: acquireDecoder_def installCachedDecoder_def)
  qed
next
  case (Some decoder)
  then have "snd (acquireDecoder lib this this tileData)
      = this\<lparr>cachedFeatureDecoder := cachedFeatureDecoder this\<rparr>"
    by (simp add: acquireDecoder_def)
  then show ?thesis by blast
qed

lemma decodeFeature_try_state:
  "snd (decodeFeature_try lib ar this featureId tileData tileBounds)
     = snd (acquireDecoder lib this this tileData)"
  by (simp add: decodeFeature_try_def Let_def split: prod.splits sum.splits option.splits)

lemma decodeFeature_state:
  "\<exists>cache. fst (snd (decodeFeature lib ar this featureId tile tileData tileBounds))
     = this\<lparr>cachedFeatureDecoder := cache\<rparr>"
proof (cases "tileData = None \<or> (\<exists>data. tileData = Some data \<and> dataPtr data = [])")
  case True
  then have "fst (snd (decodeFeature lib ar this featureId tile tileData tileBounds))
      = this\<lparr>cachedFeatureDecoder := cachedFeatureDecoder this\<rparr>"
    by (auto simp: decodeFeature_def)
  then show ?thesis by blast
next
  case False
  then obtain data where data: "tileData = Some data" "dataPtr data \<noteq> []"
    by auto
  have "fst (snd (decodeFeature lib ar this featureId tile tileData tileBounds))
      = snd (decodeFeature_try lib ar this featureId data tileBounds)"
    using data by (simp add: decodeFeature_def split: prod.splits sum.splits thrown.splits)
  with acquireDecoder_state [of lib this data] show ?thesis
    by (simp add: decodeFeature_try_state)
qed


lemma decodeFeature_invariant:
  assumes "parameterValueMap_invariant this"
  shows "parameterValueMap_invariant
           (fst (snd (decodeFeature lib ar this featureId tile tileData tileBounds)))"
proof -
  from decodeFeature_state [of lib ar this featureId tile tileData tileBounds]
  obtain cache where "fst (snd (decodeFeature lib ar this featureId tile tileData tileBounds))
      = this\<lparr>cachedFeatureDecoder := cache\<rparr>"
    by blast
  with assms show ?thesis
    by (simp add: invariant_cong [of "this\<lparr>cachedFeatureDecoder := cache\<rparr>" this])
qed

text \<open>
  C8: the invariant of the parameter values holds for the object a constructor makes,
  and every style installation (\<^verbatim>\<open>updateCurrentStyle\<close> and the two setters that call it,
  whether they succeed or throw) and every call of \<^verbatim>\<open>setStyleParameter\<close> (whether it
  returns true or false, or throws) preserves it: every key of the parameter value map
  is a parameter the current style model declares, and every stored value has the kind
  of the parameter's default value or is a value of its enum map.
\<close>

theorem parameterValueMap_invariant_holds:
  assumes "wf_StyleLibrary lib"
  shows "(\<forall>made :: ('d, 'f, 'fd) MBVectorTileDecoder.
            new_from_CompiledStyleSet lib zero compiledStyleSet = Inr made
            \<longrightarrow> parameterValueMap_invariant made)
    \<and> (\<forall>made :: ('d, 'f, 'fd) MBVectorTileDecoder.
            new_from_CartoCSSStyleSet lib zero cartoCSSStyleSet = Inr made
            \<longrightarrow> parameterValueMap_invariant made)
    \<and> (parameterValueMap_invariant (this :: ('d, 'f, 'fd) MBVectorTileDecoder) \<longrightarrow>
          parameterValueMap_invariant (fst (snd (updateCurrentStyle lib this style)))
          \<and> parameterValueMap_invariant (fst (snd (setCompiledStyleSet lib this compiledStyleSet)))
          \<and> parameterValueMap_invariant (fst (snd (setCartoCSSStyleSet lib this cartoCSSStyleSet)))
          \<and> parameterValueMap_invariant (fst (snd (setStyleParameter lc this param value))))"
proof (intro conjI allI impI)
  fix made :: "('d, 'f, 'fd) MBVectorTileDecoder"
  assume "new_from_CompiledStyleSet lib zero compiledStyleSet = Inr made"
  then obtain c current where "buildCurrentStyle lib False (Compiled c) = Inr current"
    and "made = constructed zero (Compiled c) current"
    by (auto simp: new_from_CompiledStyleSet_def split: option.splits sum.splits)
  with assms show "parameterValueMap_invariant made"
    by (simp add: constructed_invariant)
next
  fix made :: "('d, 'f, 'fd) MBVectorTileDecoder"
  assume "new_from_CartoCSSStyleSet lib zero cartoCSSStyleSet = Inr made"
  then obtain c current where "buildCurrentStyle lib False (CartoCSS c) = Inr current"
    and "made = constructed zero (CartoCSS c) current"
    by (auto simp: new_from_CartoCSSStyleSet_def split: option.splits sum.splits)
  with assms show "parameterValueMap_invariant made"
    by (simp add: constructed_invariant)
next
  assume "parameterValueMap_invariant this"
  with assms show "parameterValueMap_invariant (fst (snd (updateCurrentStyle lib this style)))"
    by (rule updateCurrentStyle_invariant)
next
  assume "parameterValueMap_invariant this"
  with assms show "parameterValueMap_invariant (fst (snd (setCompiledStyleSet lib this compiledStyleSet)))"
    by (cases compiledStyleSet)
      (simp_all add: setCompiledStyleSet_def installStyle_state updateCurrentStyle_invariant)
next
  assume "parameterValueMap_invariant this"
  with assms show "parameterValueMap_invariant (fst (snd (setCartoCSSStyleSet lib this cartoCSSStyleSet)))"
    by (cases cartoCSSStyleSet)
      (simp_all add: setCartoCSSStyleSet_def installStyle_state updateCurrentStyle_invariant)
next
  assume "parameterValueMap_invariant this"
  then show "parameterValueMap_invariant (fst (snd (setStyleParameter lc this param value)))"
    by (rule setStyleParameter_invariant)
qed

lemma example_StyleLibrary_wf: "wf_StyleLibrary example_StyleLibrary"
  by (auto simp: wf_StyleLibrary_def example_StyleLibrary_def wf_Map_def example_Map_def
      split: if_splits)

lemma example_decoder_made:
  "new_from_CartoCSSStyleSet example_StyleLibrary 0 (Some example_CartoCSSStyleSet)
     = Inr example_decoder"
  by (simp add: example_decoder_def new_from_CartoCSSStyleSet_def buildCurrentStyle_def
      loadStyleMap_def example_StyleLibrary_def example_CartoCSSStyleSet_def Let_def)

theorem parameterValueMap_invariant_holds_witness:
  "wf_StyleLibrary example_StyleLibrary
   \<and> new_from_CartoCSSStyleSet example_StyleLibrary 0 (Some example_CartoCSSStyleSet)
       = Inr example_decoder
   \<and> parameterValueMap_invariant example_decoder
   \<and> parameterValueMap_invariant
       (fst (snd (setStyleParameter example_lexical_cast_double example_decoder ''theme'' ''dark'')))"
  using example_StyleLibrary_wf example_decoder_made
    parameterValueMap_invariant_holds [OF example_StyleLibrary_wf,
      of 0 _ "Some example_CartoCSSStyleSet" example_decoder _ example_lexical_cast_double
         "''theme''" "''dark''"]
  by simp

subsection \<open>The cache of the feature decoder\<close>

text \<open>
  C3, as claimed: when the second critical section of \<^verbatim>\<open>decodeFeature\<close> finds a decoder
  installed for the same payload by another caller, it keeps that decoder and prefers it
  to the one it parsed. It does not: the cache held decoder 1 for the payload at address
  7, the caller parsed decoder 3, and the cache holds decoder 3 afterwards, which is also
  the decoder the caller goes on with.
\<close>

theorem reacquired_decoder_not_preferred:
  "lookupCachedDecoder (example_decoder\<lparr>cachedFeatureDecoder := Some (7, 1)\<rparr>) example_payload = Some 1
   \<and> acquireDecoder example_TileLibrary example_decoder
        (example_decoder\<lparr>cachedFeatureDecoder := Some (7, 1)\<rparr>) example_payload
       = (Inr 3, example_decoder\<lparr>cachedFeatureDecoder := Some (7, 3)\<rparr>)"
  by (simp add: lookupCachedDecoder_def acquireDecoder_def installCachedDecoder_def
      example_decoder_fields example_TileLibrary_def example_payload_def)

text \<open>
  C3, amended: when the cached decoder does not match the payload, the payload is parsed
  with the lock released and, on re-acquiring the lock, the parsed decoder is installed
  without a second look at the cache: it replaces whatever entry the object holds at that
  moment, also one that another caller installed for the same payload, and the caller
  uses the decoder it parsed.
\<close>

theorem parsed_decoder_installed:
  assumes "lookupCachedDecoder this tileData = None"
    and "new_MBVTFeatureDecoder lib (dataPtr tileData) = Inr parsed"
  shows "acquireDecoder lib this reacquired tileData
     = (Inr parsed, reacquired\<lparr>cachedFeatureDecoder := Some (address tileData, parsed)\<rparr>)"
  using assms by (simp add: acquireDecoder_def installCachedDecoder_def)

theorem parsed_decoder_installed_witness:
  "lookupCachedDecoder example_decoder example_payload = None
   \<and> new_MBVTFeatureDecoder example_TileLibrary (dataPtr example_payload) = Inr 3
   \<and> acquireDecoder example_TileLibrary example_decoder
        (example_decoder\<lparr>cachedFeatureDecoder := Some (7, 1)\<rparr>) example_payload
       = (Inr 3, example_decoder\<lparr>cachedFeatureDecoder := Some (7, 3)\<rparr>)"
proof -
  have miss: "lookupCachedDecoder example_decoder example_payload = None"
    by (simp add: lookupCachedDecoder_def example_decoder_fields)
  have parsed: "new_MBVTFeatureDecoder example_TileLibrary (dataPtr example_payload) = Inr 3"
    by (simp add: example_TileLibrary_def example_payload_def)
  show ?thesis
    using miss parsed
      parsed_decoder_installed [OF miss parsed,
        of "example_decoder\<lparr>cachedFeatureDecoder := Some (7, 1)\<rparr>"]
    by (simp add: example_payload_def)
qed

subsection \<open>Exceptions in decodeFeature and decodeTile\<close>





lemma decodeFeature_outcome:
  assumes "dataPtr data \<noteq> []"
  shows "decodeFeature lib ar this featureId tile (Some data) tileBounds
     = (case fst (decodeFeature_try lib ar this featureId data tileBounds) of
          Inl (std_exception_thrown what) \<Rightarrow>
            (Inr None, snd (acquireDecoder lib this this data),
             [Log Error (''MBVectorTileDecoder::decodeFeature: Exception while decoding: '' @ what)])
        | Inl other_thrown \<Rightarrow> (Inl other_thrown, snd (acquireDecoder lib this this data), [])
        | Inr result \<Rightarrow> (Inr result, snd (acquireDecoder lib this this data), []))"
  using assms decodeFeature_try_state [of lib ar this featureId data tileBounds]
  by (cases "decodeFeature_try lib ar this featureId data tileBounds")
    (simp add: decodeFeature_def split: sum.splits thrown.splits)














subsection \<open>The geometry of a decoded feature\<close>

lemma convertGeometry_type:
  "\<exists>geometry. convertGeometry fn (Some wire) = Some geometry
     \<and> geometryType geometry = (if wireParts wire = 1 then singularType wire else multiType wire)"
proof (cases wire)
  case (mvt_PointGeometry vertices)
  then show ?thesis
    by (cases vertices) (auto simp: convertGeometry_def convertPoints_def Let_def)
next
  case (mvt_LineGeometry verticesList)
  then show ?thesis
    by (cases verticesList) (auto simp: convertGeometry_def convertPointsList_def Let_def)
next
  case (mvt_PolygonGeometry polygonList)
  then show ?thesis
    by (cases polygonList) (auto simp: convertGeometry_def convertPointsLists_def Let_def)
qed

lemma decodeFeature_try_result:
  assumes "fst (acquireDecoder lib this this data) = Inr decoder"
  shows "fst (decodeFeature_try lib ar this featureId data tileBounds)
     = (case decoder_getFeature lib decoder featureId of
          Inl ex \<Rightarrow> Inl ex
        | Inr None \<Rightarrow> Inr None
        | Inr (Some (mvtLayerName, mvtFeature)) \<Rightarrow>
            Inr (Some \<lparr>getId = mvt_getId mvtFeature, getLayerName = mvtLayerName,
                       getFeature =
                         \<lparr>getGeometry = convertGeometry (convertFn ar tileBounds)
                                          (mvt_getGeometry mvtFeature),
                          getProperties = VariantObject
                            (convertFeatureData (mvt_getFeatureData mvtFeature))\<rparr>\<rparr>))"
proof -
  from assms obtain this' where "acquireDecoder lib this this data = (Inr decoder, this')"
    by (cases "acquireDecoder lib this this data") simp
  then show ?thesis
    by (simp add: decodeFeature_try_def Let_def split: sum.splits option.splits prod.splits)
qed

lemma decodeFeature_result:
  assumes "dataPtr data \<noteq> []"
  shows "fst (decodeFeature lib ar this featureId tile (Some data) tileBounds)
     = (case fst (decodeFeature_try lib ar this featureId data tileBounds) of
          Inl (std_exception_thrown what) \<Rightarrow> Inr None
        | Inl other_thrown \<Rightarrow> Inl other_thrown
        | Inr result \<Rightarrow> Inr result)"
  using assms
  by (simp add: decodeFeature_outcome split: sum.splits thrown.splits)

text \<open>
  C6: for a payload that is not null and not empty, whose decoder is in the cache or is
  parsed, and on which \<^verbatim>\<open>getFeature\<close> returns: when no feature has the given id,
  \<^verbatim>\<open>decodeFeature\<close> returns absent; when a feature has it, \<^verbatim>\<open>decodeFeature\<close> returns a
  feature with the id and the layer name found, and its geometry has the class of the
  wire geometry: the singular class (point, line, polygon) when the wire geometry has one
  part, the multi class when it has more than one.
\<close>

theorem decodeFeature_geometry_type:
  assumes "dataPtr data \<noteq> []"
    and "fst (acquireDecoder lib this this data) = Inr decoder"
    and "decoder_getFeature lib decoder featureId = Inr found"
  shows "(found = None \<longrightarrow>
            fst (decodeFeature lib ar this featureId tile (Some data) tileBounds) = Inr None)
    \<and> (\<forall>layer mvtFeature. found = Some (layer, mvtFeature) \<longrightarrow>
          (\<exists>tileFeature.
              fst (decodeFeature lib ar this featureId tile (Some data) tileBounds)
                = Inr (Some tileFeature)
              \<and> getId tileFeature = mvt_getId mvtFeature
              \<and> getLayerName tileFeature = layer
              \<and> (case mvt_getGeometry mvtFeature of
                    None \<Rightarrow> getGeometry (getFeature tileFeature) = None
                  | Some wire \<Rightarrow>
                      (\<exists>geometry. getGeometry (getFeature tileFeature) = Some geometry
                         \<and> (wireParts wire = 1 \<longrightarrow> geometryType geometry = singularType wire)
                         \<and> (1 < wireParts wire \<longrightarrow> geometryType geometry = multiType wire)))))"
proof (intro conjI allI impI)
  assume "found = None"
  with assms show "fst (decodeFeature lib ar this featureId tile (Some data) tileBounds) = Inr None"
    by (simp add: decodeFeature_result decodeFeature_try_result)
next
  fix layer mvtFeature
  assume found: "found = Some (layer, mvtFeature)"
  define feature where "feature =
    \<lparr>getGeometry = convertGeometry (convertFn ar tileBounds) (mvt_getGeometry mvtFeature),
     getProperties = VariantObject (convertFeatureData (mvt_getFeatureData mvtFeature))\<rparr>"
  define tileFeature where "tileFeature =
    \<lparr>getId = mvt_getId mvtFeature, getLayerName = layer, getFeature = feature\<rparr>"
  have result: "fst (decodeFeature lib ar this featureId tile (Some data) tileBounds)
      = Inr (Some tileFeature)"
    using assms found
    by (simp add: decodeFeature_result decodeFeature_try_result tileFeature_def feature_def)
  have geometry: "case mvt_getGeometry mvtFeature of
      None \<Rightarrow> getGeometry (getFeature tileFeature) = None
    | Some wire \<Rightarrow>
        (\<exists>geometry. getGeometry (getFeature tileFeature) = Some geometry
           \<and> (wireParts wire = 1 \<longrightarrow> geometryType geometry = singularType wire)
           \<and> (1 < wireParts wire \<longrightarrow> geometryType geometry = multiType wire))"
  proof (cases "mvt_getGeometry mvtFeature")
    case None
    then show ?thesis
      by (simp add: tileFeature_def feature_def convertGeometry_def)
  next
    case (Some wire)
    from convertGeometry_type [of "convertFn ar tileBounds" wire] Some show ?thesis
      by (auto simp: tileFeature_def feature_def)
  qed
  show "\<exists>tileFeature.
      fst (decodeFeature lib ar this featureId tile (Some data) tileBounds) = Inr (Some tileFeature)
      \<and> getId tileFeature = mvt_getId mvtFeature
      \<and> getLayerName tileFeature = layer
      \<and> (case mvt_getGeometry mvtFeature of
            None \<Rightarrow> getGeometry (getFeature tileFeature) = None
          | Some wire \<Rightarrow>
              (\<exists>geometry. getGeometry (getFeature tileFeature) = Some geometry
                 \<and> (wireParts wire = 1 \<longrightarrow> geometryType geometry = singularType wire)
                 \<and> (1 < wireParts wire \<longrightarrow> geometryType geometry = multiType wire)))"
    using result geometry by (intro exI [of _ tileFeature]) (simp add: tileFeature_def)
qed


theorem decodeFeature_geometry_type_witness:
  "dataPtr example_payload \<noteq> []
   \<and> fst (acquireDecoder example_TileLibrary example_decoder example_decoder example_payload) = Inr 3
   \<and> decoder_getFeature example_TileLibrary 3 1 = Inr (Some (''roads'', example_Feature))
   \<and> (\<exists>tileFeature.
         fst (decodeFeature example_TileLibrary example_Arithmetic example_decoder 1 (TileId 0 0 0)
                (Some example_payload) example_bounds) = Inr (Some tileFeature)
         \<and> getId tileFeature = 1
         \<and> getLayerName tileFeature = ''roads''
         \<and> (\<exists>geometry. getGeometry (getFeature tileFeature) = Some geometry
                \<and> geometryType geometry = LINE))"
proof -
  have payload: "dataPtr example_payload \<noteq> []"
    by (simp add: example_payload_def)
  have decoder: "fst (acquireDecoder example_TileLibrary example_decoder example_decoder
      example_payload) = Inr 3"
    by (simp add: acquireDecoder_def lookupCachedDecoder_def example_decoder_fields
        example_TileLibrary_def example_payload_def)
  have found: "decoder_getFeature example_TileLibrary 3 1 = Inr (Some (''roads'', example_Feature))"
    by (simp add: example_TileLibrary_def)
  show ?thesis
    using payload decoder found
      decodeFeature_geometry_type [OF payload decoder found,
        of example_Arithmetic "TileId 0 0 0" example_bounds]
    by (simp add: example_Feature_def)
qed

subsection \<open>The exceptions of style installation\<close>

text \<open>
  C7, as claimed: malformed style text throws a parse error that carries the message of
  the parser. An XML style asset that \<^verbatim>\<open>load_buffer\<close> rejects throws a \<^verbatim>\<open>ParseException\<close>
  constructed from the fixed text alone, with no message of the parser.
\<close>

theorem xml_load_failure_without_message:
  "setCompiledStyleSet example_StyleLibrary example_decoder (Some example_broken_xml)
     = (Inl (ParseException ''Style element XML parsing failed'' None), example_decoder, [])"
  by (simp add: setCompiledStyleSet_def installStyle_def updateCurrentStyle_def
      buildCurrentStyle_def loadStyleMap_def ends_with_def example_StyleLibrary_def
      example_broken_xml_def)

lemma buildCurrentStyle_error:
  "loadStyleMap lib ignore style = Inl e \<Longrightarrow> buildCurrentStyle lib ignore style = Inl e"
  by (simp add: buildCurrentStyle_def)

lemma installStyle_error:
  assumes "buildCurrentStyle lib (cartoCSSLayerNamesIgnored this) style = Inl e"
  shows "updateCurrentStyle lib this style = (Inl e, this, [])"
    and "installStyle lib this style = (Inl e, this, [])"
  using assms by (simp_all add: installStyle_def updateCurrentStyle_def)

text \<open>
  C7, amended: style installation throws to the caller, and leaves the object as it was
  and notifies nobody, as follows. A null style set throws \<^verbatim>\<open>NullArgumentException\<close>. A
  CartoCSS source that the loader rejects throws \<^verbatim>\<open>ParseException\<close> with the message of
  the loader. For a compiled source, in this order: an empty asset name throws
  \<^verbatim>\<open>InvalidArgumentException\<close>; an asset that cannot be loaded (no package, or no such
  asset) throws \<^verbatim>\<open>GenericException\<close> "Failed to load style description asset"; a name
  that ends in \<^verbatim>\<open>.xml\<close> throws \<^verbatim>\<open>ParseException\<close> with no parser message when the
  document does not load, and with the message of the map parser when that throws; a name
  that ends in \<^verbatim>\<open>.json\<close> throws \<^verbatim>\<open>ParseException\<close> with the message of the project
  loader when that throws; any other name throws \<^verbatim>\<open>GenericException\<close> "Failed to detect
  style asset type".
\<close>

theorem style_installation_errors:
  "new_from_CompiledStyleSet lib zero None
     = (Inl (NullArgumentException ''Null compiledStyleSet'')
          :: exception + ('d, 'f, 'fd) MBVectorTileDecoder)
   \<and> new_from_CartoCSSStyleSet lib zero None
       = (Inl (NullArgumentException ''Null cartoCSSStyleSet'')
            :: exception + ('d, 'f, 'fd) MBVectorTileDecoder)
   \<and> setCompiledStyleSet lib (this :: ('d, 'f, 'fd) MBVectorTileDecoder) None
       = (Inl (NullArgumentException ''Null styleSet''), this, [])
   \<and> setCartoCSSStyleSet lib this None = (Inl (NullArgumentException ''Null styleSet''), this, [])
   \<and> (\<forall>what. loadMap lib ignore (css_assetPackage cartoCSS) (css_cartoCSS cartoCSS) = Inl what \<longrightarrow>
          loadStyleMap lib ignore (CartoCSS cartoCSS)
            = Inl (ParseException ''CartoCSS style parsing failed'' (Some what)))
   \<and> (cs_styleAssetName compiled = [] \<longrightarrow>
          loadStyleMap lib ignore (Compiled compiled)
            = Inl (InvalidArgumentException ''Could not find any styles in the style set''))
   \<and> (cs_styleAssetName compiled \<noteq> []
        \<and> (cs_assetPackage compiled = None
            \<or> (\<exists>package. cs_assetPackage compiled = Some package
                  \<and> loadAsset package (cs_styleAssetName compiled) = None)) \<longrightarrow>
          loadStyleMap lib ignore (Compiled compiled)
            = Inl (GenericException ''Failed to load style description asset''))
   \<and> (\<forall>package data.
          cs_styleAssetName compiled \<noteq> [] \<and> cs_assetPackage compiled = Some package
          \<and> loadAsset package (cs_styleAssetName compiled) = Some data \<longrightarrow>
          (ends_with (cs_styleAssetName compiled) ''.xml'' \<and> \<not> load_buffer lib data \<longrightarrow>
             loadStyleMap lib ignore (Compiled compiled)
               = Inl (ParseException ''Style element XML parsing failed'' None))
          \<and> (\<forall>what. ends_with (cs_styleAssetName compiled) ''.xml'' \<and> load_buffer lib data
                \<and> parseMap lib data = Inl what \<longrightarrow>
                loadStyleMap lib ignore (Compiled compiled)
                  = Inl (ParseException ''XML style processing failed'' (Some what)))
          \<and> (\<forall>what. \<not> ends_with (cs_styleAssetName compiled) ''.xml''
                \<and> ends_with (cs_styleAssetName compiled) ''.json''
                \<and> loadMapProject lib ignore (GetFilePath lib (cs_styleAssetName compiled))
                     (Some package) (cs_styleAssetName compiled) = Inl what \<longrightarrow>
                loadStyleMap lib ignore (Compiled compiled)
                  = Inl (ParseException ''CartoCSS style parsing failed'' (Some what)))
          \<and> (\<not> ends_with (cs_styleAssetName compiled) ''.xml''
              \<and> \<not> ends_with (cs_styleAssetName compiled) ''.json'' \<longrightarrow>
                loadStyleMap lib ignore (Compiled compiled)
                  = Inl (GenericException ''Failed to detect style asset type'')))
   \<and> (\<forall>e. loadStyleMap lib False (Compiled compiled) = Inl e \<longrightarrow>
          new_from_CompiledStyleSet lib zero (Some compiled)
            = (Inl e :: exception + ('d, 'f, 'fd) MBVectorTileDecoder))
   \<and> (\<forall>e. loadStyleMap lib False (CartoCSS cartoCSS) = Inl e \<longrightarrow>
          new_from_CartoCSSStyleSet lib zero (Some cartoCSS)
            = (Inl e :: exception + ('d, 'f, 'fd) MBVectorTileDecoder))
   \<and> (\<forall>e. loadStyleMap lib (cartoCSSLayerNamesIgnored this) (Compiled compiled) = Inl e \<longrightarrow>
          setCompiledStyleSet lib this (Some compiled) = (Inl e, this, []))
   \<and> (\<forall>e. loadStyleMap lib (cartoCSSLayerNamesIgnored this) (CartoCSS cartoCSS) = Inl e \<longrightarrow>
          setCartoCSSStyleSet lib this (Some cartoCSS) = (Inl e, this, []))"
proof (intro conjI allI impI)
  fix e
  assume "loadStyleMap lib False (Compiled compiled) = Inl e"
  then show "new_from_CompiledStyleSet lib zero (Some compiled)
      = (Inl e :: exception + ('d, 'f, 'fd) MBVectorTileDecoder)"
    by (simp add: new_from_CompiledStyleSet_def buildCurrentStyle_error)
next
  fix e
  assume "loadStyleMap lib False (CartoCSS cartoCSS) = Inl e"
  then show "new_from_CartoCSSStyleSet lib zero (Some cartoCSS)
      = (Inl e :: exception + ('d, 'f, 'fd) MBVectorTileDecoder)"
    by (simp add: new_from_CartoCSSStyleSet_def buildCurrentStyle_error)
next
  fix e
  assume "loadStyleMap lib (cartoCSSLayerNamesIgnored this) (Compiled compiled) = Inl e"
  then show "setCompiledStyleSet lib this (Some compiled) = (Inl e, this, [])"
    by (simp add: setCompiledStyleSet_def installStyle_error buildCurrentStyle_error)
next
  fix e
  assume "loadStyleMap lib (cartoCSSLayerNamesIgnored this) (CartoCSS cartoCSS) = Inl e"
  then show "setCartoCSSStyleSet lib this (Some cartoCSS) = (Inl e, this, [])"
    by (simp add: setCartoCSSStyleSet_def installStyle_error buildCurrentStyle_error)
next
  assume "cs_styleAssetName compiled \<noteq> []
    \<and> (cs_assetPackage compiled = None
        \<or> (\<exists>package. cs_assetPackage compiled = Some package
              \<and> loadAsset package (cs_styleAssetName compiled) = None))"
  then show "loadStyleMap lib ignore (Compiled compiled)
      = Inl (GenericException ''Failed to load style description asset'')"
    by (auto simp: loadStyleMap_def Let_def)
qed (simp_all add: new_from_CompiledStyleSet_def new_from_CartoCSSStyleSet_def
    setCompiledStyleSet_def setCartoCSSStyleSet_def loadStyleMap_def Let_def)


theorem style_installation_errors_witness:
  "loadMap example_StyleLibrary False None [] = Inl ''empty style''
   \<and> new_from_CartoCSSStyleSet example_StyleLibrary (0 :: nat)
         (Some \<lparr>css_cartoCSS = [], css_assetPackage = None\<rparr>)
       = (Inl (ParseException ''CartoCSS style parsing failed'' (Some ''empty style''))
            :: exception + (nat, nat, nat) MBVectorTileDecoder)
   \<and> setCompiledStyleSet example_StyleLibrary example_decoder
         (Some \<lparr>cs_styleAssetName = [], cs_assetPackage = None\<rparr>)
       = (Inl (InvalidArgumentException ''Could not find any styles in the style set''),
          example_decoder, [])
   \<and> setCompiledStyleSet example_StyleLibrary example_decoder
         (Some \<lparr>cs_styleAssetName = ''style.txt'', cs_assetPackage = None\<rparr>)
       = (Inl (GenericException ''Failed to load style description asset''), example_decoder, [])
   \<and> setCompiledStyleSet example_StyleLibrary example_decoder (Some example_broken_xml)
       = (Inl (ParseException ''Style element XML parsing failed'' None), example_decoder, [])"
proof -
  have malformed: "loadMap example_StyleLibrary False None [] = Inl ''empty style''"
    by (simp add: example_StyleLibrary_def)
  have flag: "cartoCSSLayerNamesIgnored example_decoder = False"
    by (simp add: example_decoder_def new_from_CartoCSSStyleSet_def buildCurrentStyle_def
        loadStyleMap_def example_StyleLibrary_def example_CartoCSSStyleSet_def constructed_def
        Let_def)
  have asset: "loadAsset \<lparr>getAssetNames = [''style.xml''],
      loadAsset = (\<lambda>name. if name = ''style.xml'' then Some [] else None)\<rparr> ''style.xml'' = Some []"
    by simp
  have broken: "\<not> load_buffer example_StyleLibrary []"
    by (simp add: example_StyleLibrary_def)
  have xml: "ends_with ''style.xml'' ''.xml''"
    by (simp add: ends_with_def)
  note unnamed = style_installation_errors [where lib = example_StyleLibrary and zero = "0 :: nat"
        and this = example_decoder and ignore = False
        and cartoCSS = "\<lparr>css_cartoCSS = [], css_assetPackage = None\<rparr>"
        and compiled = "\<lparr>cs_styleAssetName = [], cs_assetPackage = None\<rparr>"]
  note unloaded = style_installation_errors [where lib = example_StyleLibrary and zero = "0 :: nat"
        and this = example_decoder and ignore = False
        and cartoCSS = "\<lparr>css_cartoCSS = [], css_assetPackage = None\<rparr>"
        and compiled = "\<lparr>cs_styleAssetName = ''style.txt'', cs_assetPackage = None\<rparr>"]
  note unparsed = style_installation_errors [where lib = example_StyleLibrary and zero = "0 :: nat"
        and this = example_decoder and ignore = False
        and cartoCSS = "\<lparr>css_cartoCSS = [], css_assetPackage = None\<rparr>"
        and compiled = example_broken_xml]
  have first: "new_from_CartoCSSStyleSet example_StyleLibrary (0 :: nat)
         (Some \<lparr>css_cartoCSS = [], css_assetPackage = None\<rparr>)
       = (Inl (ParseException ''CartoCSS style parsing failed'' (Some ''empty style''))
            :: exception + (nat, nat, nat) MBVectorTileDecoder)"
    using malformed unnamed by (simp cong: conj_cong)
  have second: "setCompiledStyleSet example_StyleLibrary example_decoder
         (Some \<lparr>cs_styleAssetName = [], cs_assetPackage = None\<rparr>)
       = (Inl (InvalidArgumentException ''Could not find any styles in the style set''),
          example_decoder, [])"
    using flag unnamed by (simp cong: conj_cong)
  have third: "setCompiledStyleSet example_StyleLibrary example_decoder
         (Some \<lparr>cs_styleAssetName = ''style.txt'', cs_assetPackage = None\<rparr>)
       = (Inl (GenericException ''Failed to load style description asset''), example_decoder, [])"
    using flag unloaded by (simp cong: conj_cong)
  have fourth: "setCompiledStyleSet example_StyleLibrary example_decoder (Some example_broken_xml)
       = (Inl (ParseException ''Style element XML parsing failed'' None), example_decoder, [])"
    using flag asset broken xml unparsed by (simp add: example_broken_xml_def cong: conj_cong)
  show ?thesis
    using malformed first second third fourth by simp
qed

end
